theory Spec2Isabelle
  imports Main "HOL-Library.AList"
begin

section \<open>JavaScript values used by the client\<close>

text \<open>
  The client never computes with the numbers it finds in a response body: it prints them
  (\<^verbatim>\<open>String(x)\<close>, \<^verbatim>\<open>JSON.stringify(x)\<close>), tests them for truthiness and
  writes literals. Numbers are therefore a type parameter \<open>'n\<close>, and these four platform
  operations on them are passed in as a record. \<open>num_to_json\<close> differs from
  \<open>num_to_string\<close> only on non-finite numbers, which \<^verbatim>\<open>JSON.stringify\<close> prints as
  \<^verbatim>\<open>null\<close>.
\<close>

record 'n number_ops =
  num_to_string :: "'n \<Rightarrow> string"
  num_to_json :: "'n \<Rightarrow> string"
  num_truthy :: "'n \<Rightarrow> bool"
  num_lit :: "int \<Rightarrow> 'n"

text \<open>
  A value produced by \<^verbatim>\<open>JSON.parse\<close> (\<^verbatim>\<open>response.json()\<close>). An object is the list
  of its own properties in enumeration order; a parsed object has no repeated key.
  Strings are lists of characters; \<open>toLowerCase\<close> below acts on the letters A to Z and
  leaves every other character as it is.
\<close>

datatype 'n json =
    JNull
  | JBool bool
  | JNum 'n
  | JStr string
  | JArr "'n json list"
  | JObj "(string \<times> 'n json) list"

text \<open>
  What a platform function throws: an \<^verbatim>\<open>Error\<close> instance with its \<^verbatim>\<open>name\<close> and
  \<^verbatim>\<open>message\<close>, or a value that is not an \<^verbatim>\<open>Error\<close>.
\<close>

datatype js_thrown = JsError string string | NonError

text \<open>
  The \<^verbatim>\<open>TypeError\<close> of reading a property of \<^verbatim>\<open>null\<close> or \<^verbatim>\<open>undefined\<close>, and of
  calling what is not a function. The message texts are V8's; another engine words them
  differently.
\<close>

definition TypeError_read :: "string \<Rightarrow> string \<Rightarrow> js_thrown" where
  "TypeError_read what prop =
     JsError ''TypeError''
       (''Cannot read properties of '' @ what @ '' (reading '' @ [CHR 0x27] @ prop @ [CHR 0x27] @ '')'')"

definition TypeError_not_function :: "string \<Rightarrow> js_thrown" where
  "TypeError_not_function what = JsError ''TypeError'' (what @ '' is not a function'')"

text \<open>
  \<^verbatim>\<open>x.prop\<close> on a non-null value, for a property name that is neither \<^verbatim>\<open>length\<close>
  nor an index nor inherited: only an object can have it; \<open>None\<close> is \<^verbatim>\<open>undefined\<close>.
\<close>

definition get_prop :: "'n json \<Rightarrow> string \<Rightarrow> 'n json option" where
  "get_prop v k = (case v of JObj kvs \<Rightarrow> map_of kvs k | _ \<Rightarrow> None)"

text \<open>\<^verbatim>\<open>Array.prototype.join\<close> on strings.\<close>

fun join :: "string \<Rightarrow> string list \<Rightarrow> string" where
  "join sep [] = []"
| "join sep [x] = x"
| "join sep (x # y # ys) = x @ sep @ join sep (y # ys)"

text \<open>
  \<^verbatim>\<open>String(x)\<close>. An array prints its elements joined by commas, \<^verbatim>\<open>null\<close> elements
  as the empty string; an object prints as \<^verbatim>\<open>[object Object]\<close>.
\<close>

fun js_String :: "'n number_ops \<Rightarrow> 'n json \<Rightarrow> string" where
  "js_String N JNull = ''null''"
| "js_String N (JBool b) = (if b then ''true'' else ''false'')"
| "js_String N (JNum n) = num_to_string N n"
| "js_String N (JStr s) = s"
| "js_String N (JArr xs) =
     join '','' (map (\<lambda>x. if x = JNull then [] else js_String N x) xs)"
| "js_String N (JObj kvs) = ''[object Object]''"

text \<open>A value inside a template literal; \<open>None\<close> is \<^verbatim>\<open>undefined\<close>.\<close>

definition template_value :: "'n number_ops \<Rightarrow> 'n json option \<Rightarrow> string" where
  "template_value N v = (case v of None \<Rightarrow> ''undefined'' | Some x \<Rightarrow> js_String N x)"

text \<open>\<^verbatim>\<open>JSON.stringify\<close> of a parsed value, with the string quoting of ECMA-262.\<close>

definition hex_digit :: "nat \<Rightarrow> char" where
  "hex_digit d = ''0123456789abcdef'' ! d"

definition quote_char :: "char \<Rightarrow> string" where
  "quote_char c =
     (if c = CHR 0x08 then [CHR 0x5C, CHR ''b'']
      else if c = CHR 0x09 then [CHR 0x5C, CHR ''t'']
      else if c = CHR 0x0A then [CHR 0x5C, CHR ''n'']
      else if c = CHR 0x0C then [CHR 0x5C, CHR ''f'']
      else if c = CHR 0x0D then [CHR 0x5C, CHR ''r'']
      else if c = CHR 0x22 then [CHR 0x5C, CHR 0x22]
      else if c = CHR 0x5C then [CHR 0x5C, CHR 0x5C]
      else if (of_char c :: nat) < 32
        then [CHR 0x5C, CHR ''u'', CHR ''0'', CHR ''0'',
              hex_digit (of_char c div 16), hex_digit (of_char c mod 16)]
      else [c])"

definition QuoteJSONString :: "string \<Rightarrow> string" where
  "QuoteJSONString s = [CHR 0x22] @ concat (map quote_char s) @ [CHR 0x22]"

fun JSON_stringify :: "'n number_ops \<Rightarrow> 'n json \<Rightarrow> string" where
  "JSON_stringify N JNull = ''null''"
| "JSON_stringify N (JBool b) = (if b then ''true'' else ''false'')"
| "JSON_stringify N (JNum n) = num_to_json N n"
| "JSON_stringify N (JStr s) = QuoteJSONString s"
| "JSON_stringify N (JArr xs) = ''['' @ join '','' (map (JSON_stringify N) xs) @ '']''"
| "JSON_stringify N (JObj kvs) =
     ''{'' @ join '','' (map (\<lambda>(k, v). QuoteJSONString k @ '':'' @ JSON_stringify N v) kvs) @ ''}''"

text \<open>\<^verbatim>\<open>typeof x === "object"\<close>: objects, arrays and \<^verbatim>\<open>null\<close>.\<close>

definition typeof_object :: "'n json \<Rightarrow> bool" where
  "typeof_object v = (case v of JObj _ \<Rightarrow> True | JArr _ \<Rightarrow> True | JNull \<Rightarrow> True | _ \<Rightarrow> False)"

text \<open>\<^verbatim>\<open>toLowerCase\<close>, \<^verbatim>\<open>includes\<close>, \<^verbatim>\<open>endsWith("/")\<close>, \<^verbatim>\<open>padStart(2, "0")\<close>.\<close>

definition lower_char :: "char \<Rightarrow> char" where
  "lower_char c =
     (if 65 \<le> (of_char c :: nat) \<and> (of_char c :: nat) \<le> 90
      then char_of ((of_char c :: nat) + 32) else c)"

definition toLowerCase :: "string \<Rightarrow> string" where
  "toLowerCase s = map lower_char s"

fun js_includes :: "string \<Rightarrow> string \<Rightarrow> bool" where
  "js_includes [] sub = (sub = [])"
| "js_includes (c # cs) sub = (take (length sub) (c # cs) = sub \<or> js_includes cs sub)"

definition endsWith_slash :: "string \<Rightarrow> bool" where
  "endsWith_slash s = (s \<noteq> [] \<and> last s = CHR ''/'')"

definition padStart2 :: "string \<Rightarrow> string" where
  "padStart2 s = replicate (2 - length s) (CHR ''0'') @ s"


section \<open>Configuration (src/config.ts)\<close>

record 'n MatchEngineConfig =
  baseUrl :: string
  apiToken :: string
  stripePublishableKey :: string
  timeoutMs :: "'n option"

record 'n RequiredConfig =
  r_baseUrl :: string
  r_apiToken :: string
  r_stripePublishableKey :: string
  r_timeoutMs :: 'n

definition createConfig :: "'n number_ops \<Rightarrow> 'n MatchEngineConfig \<Rightarrow> 'n RequiredConfig" where
  "createConfig N config =
     (let baseUrl' = (if endsWith_slash (baseUrl config) then butlast (baseUrl config)
                      else baseUrl config)
      in \<lparr> r_baseUrl = baseUrl',
           r_apiToken = apiToken config,
           r_stripePublishableKey = stripePublishableKey config,
           r_timeoutMs = (case timeoutMs config of None \<Rightarrow> num_lit N 30000 | Some t \<Rightarrow> t) \<rparr>)"


section \<open>The error classes (src/errors/index.ts)\<close>

datatype error_class =
    MatchEngineError
  | AuthenticationError
  | NotFoundError
  | ValidationError
  | SlotNotAvailableError
  | UserNotFoundError
  | BookingError
  | PaymentError

text \<open>
  An instance of one of the classes. \<open>fieldErrors\<close> exists on a \<open>ValidationError\<close> only;
  \<open>None\<close> is \<^verbatim>\<open>undefined\<close> throughout.
\<close>

record 'n sdk_error =
  error_class :: error_class
  message :: string
  statusCode :: "int option"
  responseData :: "'n json option"
  fieldErrors :: "(string \<times> string list) list option"

definition new_MatchEngineError ::
  "string \<Rightarrow> int option \<Rightarrow> 'n json option \<Rightarrow> 'n sdk_error" where
  "new_MatchEngineError msg sc rd =
     \<lparr> error_class = MatchEngineError, message = msg, statusCode = sc,
       responseData = rd, fieldErrors = None \<rparr>"

definition new_AuthenticationError :: "string option \<Rightarrow> 'n sdk_error" where
  "new_AuthenticationError msg =
     (new_MatchEngineError
        (case msg of None \<Rightarrow> ''Invalid or expired API token'' | Some m \<Rightarrow> m) (Some 401) None)
     \<lparr> error_class := AuthenticationError \<rparr>"

definition new_NotFoundError :: "string option \<Rightarrow> 'n sdk_error" where
  "new_NotFoundError msg =
     (new_MatchEngineError
        (case msg of None \<Rightarrow> ''Resource not found'' | Some m \<Rightarrow> m) (Some 404) None)
     \<lparr> error_class := NotFoundError \<rparr>"

definition new_ValidationError ::
  "string \<Rightarrow> (string \<times> string list) list option \<Rightarrow> 'n json option \<Rightarrow> 'n sdk_error" where
  "new_ValidationError msg fe rd =
     (new_MatchEngineError msg (Some 400) rd)
     \<lparr> error_class := ValidationError, fieldErrors := fe \<rparr>"

definition new_SlotNotAvailableError :: "string option \<Rightarrow> 'n sdk_error" where
  "new_SlotNotAvailableError msg =
     (new_MatchEngineError
        (case msg of None \<Rightarrow> ''Time slot is not available'' | Some m \<Rightarrow> m) (Some 400) None)
     \<lparr> error_class := SlotNotAvailableError \<rparr>"

definition new_UserNotFoundError :: "string option \<Rightarrow> 'n sdk_error" where
  "new_UserNotFoundError msg =
     (new_MatchEngineError
        (case msg of None \<Rightarrow> ''User not found'' | Some m \<Rightarrow> m) (Some 404) None)
     \<lparr> error_class := UserNotFoundError \<rparr>"

definition new_BookingError ::
  "string \<Rightarrow> int option \<Rightarrow> 'n json option \<Rightarrow> 'n sdk_error" where
  "new_BookingError msg sc rd = (new_MatchEngineError msg sc rd) \<lparr> error_class := BookingError \<rparr>"

definition new_PaymentError ::
  "string \<Rightarrow> int option \<Rightarrow> 'n json option \<Rightarrow> 'n sdk_error" where
  "new_PaymentError msg sc rd = (new_MatchEngineError msg sc rd) \<lparr> error_class := PaymentError \<rparr>"

text \<open>
  A thrown value as a \<^verbatim>\<open>catch\<close> clause sees it: an instance of \<open>MatchEngineError\<close> or
  of a subclass, or anything else.
\<close>

datatype 'n thrown = Sdk "'n sdk_error" | Raw js_thrown

text \<open>\<^verbatim>\<open>error instanceof NotFoundError\<close>: no class extends \<open>NotFoundError\<close>.\<close>

definition instanceof_NotFoundError :: "'n thrown \<Rightarrow> bool" where
  "instanceof_NotFoundError t =
     (case t of Sdk e \<Rightarrow> error_class e = NotFoundError | Raw _ \<Rightarrow> False)"


section \<open>The error normalizer (src/client.ts, handleError)\<close>

text \<open>
  The first half of \<open>handleError\<close>: the message. Reading \<^verbatim>\<open>data.error\<close> throws when
  \<open>data\<close> is \<^verbatim>\<open>null\<close>.
\<close>

definition derive_message :: "'n number_ops \<Rightarrow> 'n json \<Rightarrow> js_thrown + string" where
  "derive_message N data =
     (if data = JNull then Inl (TypeError_read ''null'' ''error'')
      else
        (case get_prop data ''error'' of
           Some (JStr s) \<Rightarrow> Inr s
         | _ \<Rightarrow>
        (case get_prop data ''detail'' of
           Some (JStr s) \<Rightarrow> Inr s
         | _ \<Rightarrow>
        (case get_prop data ''non_field_errors'' of
           Some (JArr (x # xs)) \<Rightarrow> Inr (js_String N x)
         | _ \<Rightarrow>
        (if typeof_object data then Inr (JSON_stringify N data)
         else Inr ''Unknown error'')))))"

text \<open>The second half: the \<^verbatim>\<open>switch\<close> on the status code.\<close>

definition classify :: "int \<Rightarrow> string \<Rightarrow> 'n json \<Rightarrow> 'n sdk_error" where
  "classify status msg data =
     (if status = 401 then new_AuthenticationError (Some msg)
      else if status = 404 then new_NotFoundError (Some msg)
      else if status = 400 then
        (if js_includes (toLowerCase msg) ''not available''
           then new_SlotNotAvailableError (Some msg)
         else if js_includes (toLowerCase msg) ''user''
                 \<and> js_includes (toLowerCase msg) ''not found''
           then new_UserNotFoundError (Some msg)
         else new_ValidationError msg None (Some data))
      else new_MatchEngineError msg (Some status) (Some data))"

definition handleError :: "'n number_ops \<Rightarrow> int \<Rightarrow> 'n json \<Rightarrow> js_thrown + 'n sdk_error" where
  "handleError N status data =
     (case derive_message N data of
        Inl t \<Rightarrow> Inl t
      | Inr msg \<Rightarrow> Inr (classify status msg data))"


section \<open>The transport (src/client.ts, request)\<close>

record 'n MatchEngineClient =
  config :: "'n RequiredConfig"
  baseApiUrl :: string

definition new_MatchEngineClient ::
  "'n number_ops \<Rightarrow> 'n MatchEngineConfig \<Rightarrow> 'n MatchEngineClient" where
  "new_MatchEngineClient N cfg =
     \<lparr> config = createConfig N cfg,
       baseApiUrl = r_baseUrl (createConfig N cfg) @ ''/api/v1'' \<rparr>"

record 'n RequestOptions =
  http_method :: string
  path :: string
  data :: "'n json option"
  queryParams :: "(string \<times> string) list option"
  headers :: "(string \<times> string) list option"

text \<open>
  What \<open>request\<close> hands to the platform: the string given to \<^verbatim>\<open>new URL\<close>, the query
  parameters appended to it in order, and the arguments of \<^verbatim>\<open>fetch\<close>.
\<close>

record fetch_call =
  fc_url :: string
  fc_query :: "(string \<times> string) list"
  fc_method :: string
  fc_headers :: "(string \<times> string) list"
  fc_body :: "string option"

text \<open>
  What the platform does with it: \<^verbatim>\<open>new URL\<close> throws a \<^verbatim>\<open>TypeError\<close> (before the
  \<^verbatim>\<open>try\<close> block is entered); or \<^verbatim>\<open>fetch\<close> rejects (the abort signal fired, or the
  network failed); or it resolves with a response, of which the code reads the status
  and \<^verbatim>\<open>json()\<close>, which rejects when the body is not JSON.
\<close>

datatype 'n fetch_outcome =
    URLInvalid string
  | FetchRejected js_thrown
  | FetchResponse int "js_thrown + 'n json"

definition response_ok :: "int \<Rightarrow> bool" where
  "response_ok status = (200 \<le> status \<and> status \<le> 299)"

definition build_call :: "'n number_ops \<Rightarrow> 'n MatchEngineClient \<Rightarrow> 'n RequestOptions \<Rightarrow> fetch_call" where
  "build_call N client options =
     \<lparr> fc_url = baseApiUrl client @ path options,
       fc_query = (case queryParams options of None \<Rightarrow> [] | Some q \<Rightarrow> q),
       fc_method = http_method options,
       fc_headers =
         fold (\<lambda>(k, v). AList.update k v)
           (case headers options of None \<Rightarrow> [] | Some h \<Rightarrow> h)
           [(''Authorization'', ''Token '' @ r_apiToken (config client)),
            (''Content-Type'', ''application/json''),
            (''Accept'', ''application/json'')],
       fc_body = map_option (JSON_stringify N) (data options) \<rparr>"

text \<open>The \<^verbatim>\<open>catch\<close> clause of \<open>request\<close>.\<close>

definition request_catch :: "'n thrown \<Rightarrow> 'n thrown + 'n json" where
  "request_catch t =
     (case t of
        Sdk e \<Rightarrow> Inl (Sdk e)
      | Raw (JsError nm msg) \<Rightarrow>
          (if nm = ''AbortError''
           then Inl (Sdk (new_MatchEngineError ''Request timeout'' (Some 408) None))
           else Inl (Sdk (new_MatchEngineError msg None None)))
      | Raw NonError \<Rightarrow> Inl (Sdk (new_MatchEngineError ''Unknown error'' None None)))"

text \<open>\<^verbatim>\<open>await response.json().catch(() => ({}))\<close>: the parsed body, or the empty object.\<close>

definition error_body :: "js_thrown + 'n json \<Rightarrow> 'n json" where
  "error_body body = (case body of Inl _ \<Rightarrow> JObj [] | Inr d \<Rightarrow> d)"

definition request ::
  "'n number_ops \<Rightarrow> 'n MatchEngineClient \<Rightarrow> (fetch_call \<Rightarrow> 'n fetch_outcome)
     \<Rightarrow> 'n RequestOptions \<Rightarrow> 'n thrown + 'n json" where
  "request N client net options =
     (case net (build_call N client options) of
        URLInvalid msg \<Rightarrow> Inl (Raw (JsError ''TypeError'' msg))
      | FetchRejected t \<Rightarrow> request_catch (Raw t)
      | FetchResponse status body \<Rightarrow>
          (if \<not> response_ok status then
             (let data = error_body body
              in case handleError N status data of
                   Inl t \<Rightarrow> request_catch (Raw t)
                 | Inr e \<Rightarrow> request_catch (Sdk e))
           else
             (case body of
                Inl t \<Rightarrow> request_catch (Raw t)
              | Inr d \<Rightarrow> Inr d)))"


section \<open>The operations of the client (src/client.ts)\<close>

text \<open>
  Every operation awaits \<^verbatim>\<open>this.request\<close>; it is passed in as \<open>req\<close>, so that an
  operation can be read against any behaviour of the transport. The fields of an options
  object are the arguments; an optional field is an \<open>option\<close>. The object literal an
  operation hands to \<^verbatim>\<open>this.request\<close> is the definition named after it with the
  suffix \<open>_request\<close>.
\<close>

type_synonym 'n transport = "'n RequestOptions \<Rightarrow> 'n thrown + 'n json"

definition or_empty :: "string option \<Rightarrow> string" where
  "or_empty s = (case s of None \<Rightarrow> [] | Some x \<Rightarrow> x)"

definition or_empty_object :: "'n json option \<Rightarrow> 'n json" where
  "or_empty_object v = (case v of None \<Rightarrow> JObj [] | Some x \<Rightarrow> x)"

definition bool_String :: "bool \<Rightarrow> string" where
  "bool_String b = (if b then ''true'' else ''false'')"

text \<open>
  The conditional assignments to \<open>queryParams\<close>:
  \<^verbatim>\<open>if (options?.x) queryParams.key = x\<close> for a string (the empty string is falsy),
  \<^verbatim>\<open>if (options?.x) queryParams.key = String(x)\<close> for a number, and
  \<^verbatim>\<open>if (options?.x !== void 0) queryParams.key = String(x)\<close> for a boolean.
\<close>

definition string_param :: "string \<Rightarrow> string option \<Rightarrow> (string \<times> string) list" where
  "string_param key s = (case s of None \<Rightarrow> [] | Some x \<Rightarrow> if x \<noteq> [] then [(key, x)] else [])"

definition number_param :: "'n number_ops \<Rightarrow> string \<Rightarrow> 'n option \<Rightarrow> (string \<times> string) list" where
  "number_param N key n =
     (case n of None \<Rightarrow> []
      | Some x \<Rightarrow> if num_truthy N x then [(key, num_to_string N x)] else [])"

definition bool_param :: "string \<Rightarrow> bool option \<Rightarrow> (string \<times> string) list" where
  "bool_param key b = (case b of None \<Rightarrow> [] | Some x \<Rightarrow> [(key, bool_String x)])"

subsection \<open>Users, resources, venues\<close>

definition registerUser_request ::
  "string \<Rightarrow> string \<Rightarrow> string option \<Rightarrow> string option \<Rightarrow> 'n RequestOptions" where
  "registerUser_request externalId email firstName lastName =
     \<lparr> http_method = ''POST'', path = ''/client/users/register/'',
       data = Some (JObj [(''external_id'', JStr externalId),
                          (''email'', JStr email),
                          (''first_name'', JStr (or_empty firstName)),
                          (''last_name'', JStr (or_empty lastName))]),
       queryParams = None, headers = None \<rparr>"

definition registerUser ::
  "'n transport \<Rightarrow> string \<Rightarrow> string \<Rightarrow> string option \<Rightarrow> string option \<Rightarrow> 'n thrown + 'n json" where
  "registerUser req externalId email firstName lastName =
     req (registerUser_request externalId email firstName lastName)"

definition lookupUser_request :: "string \<Rightarrow> 'n RequestOptions" where
  "lookupUser_request externalId =
     \<lparr> http_method = ''GET'', path = ''/client/users/lookup/'', data = None,
       queryParams = Some [(''external_id'', externalId)], headers = None \<rparr>"

definition lookupUser :: "'n transport \<Rightarrow> string \<Rightarrow> 'n thrown + 'n json" where
  "lookupUser req externalId =
     (case req (lookupUser_request externalId) of
        Inr v \<Rightarrow> Inr v
      | Inl error \<Rightarrow> if instanceof_NotFoundError error then Inr JNull else Inl error)"

definition registerResource_request :: "string \<Rightarrow> 'n \<Rightarrow> 'n json option \<Rightarrow> 'n RequestOptions" where
  "registerResource_request externalId matchengineResourceId externalData =
     \<lparr> http_method = ''POST'', path = ''/client/resources/register/'',
       data = Some (JObj [(''external_id'', JStr externalId),
                          (''resource_id'', JNum matchengineResourceId),
                          (''external_data'', or_empty_object externalData)]),
       queryParams = None, headers = None \<rparr>"

definition registerResource ::
  "'n transport \<Rightarrow> string \<Rightarrow> 'n \<Rightarrow> 'n json option \<Rightarrow> 'n thrown + 'n json" where
  "registerResource req externalId matchengineResourceId externalData =
     req (registerResource_request externalId matchengineResourceId externalData)"

definition lookupResource_request :: "string \<Rightarrow> 'n RequestOptions" where
  "lookupResource_request externalId =
     \<lparr> http_method = ''GET'', path = ''/client/resources/lookup/'', data = None,
       queryParams = Some [(''external_id'', externalId)], headers = None \<rparr>"

definition lookupResource :: "'n transport \<Rightarrow> string \<Rightarrow> 'n thrown + 'n json" where
  "lookupResource req externalId =
     (case req (lookupResource_request externalId) of
        Inr v \<Rightarrow> Inr v
      | Inl error \<Rightarrow> if instanceof_NotFoundError error then Inr JNull else Inl error)"

definition listResources_request ::
  "'n number_ops \<Rightarrow> 'n option \<Rightarrow> string option \<Rightarrow> bool option \<Rightarrow> bool option \<Rightarrow> 'n RequestOptions" where
  "listResources_request N venueId venueSlug isActive isBookable =
     \<lparr> http_method = ''GET'', path = ''/resources/'', data = None,
       queryParams = Some
         (number_param N ''venue'' venueId
          @ string_param ''venue_slug'' venueSlug
          @ bool_param ''is_active'' isActive
          @ bool_param ''is_bookable'' isBookable),
       headers = None \<rparr>"

definition listResources ::
  "'n number_ops \<Rightarrow> 'n transport \<Rightarrow> 'n option \<Rightarrow> string option \<Rightarrow> bool option \<Rightarrow> bool option
     \<Rightarrow> 'n thrown + 'n json" where
  "listResources N req venueId venueSlug isActive isBookable =
     req (listResources_request N venueId venueSlug isActive isBookable)"

definition registerVenue_request :: "string \<Rightarrow> 'n \<Rightarrow> 'n json option \<Rightarrow> 'n RequestOptions" where
  "registerVenue_request externalId matchengineVenueId externalData =
     \<lparr> http_method = ''POST'', path = ''/client/venues/register/'',
       data = Some (JObj [(''external_id'', JStr externalId),
                          (''venue_id'', JNum matchengineVenueId),
                          (''external_data'', or_empty_object externalData)]),
       queryParams = None, headers = None \<rparr>"

definition registerVenue ::
  "'n transport \<Rightarrow> string \<Rightarrow> 'n \<Rightarrow> 'n json option \<Rightarrow> 'n thrown + 'n json" where
  "registerVenue req externalId matchengineVenueId externalData =
     req (registerVenue_request externalId matchengineVenueId externalData)"

definition lookupVenue_request :: "string \<Rightarrow> 'n RequestOptions" where
  "lookupVenue_request externalId =
     \<lparr> http_method = ''GET'', path = ''/client/venues/lookup/'', data = None,
       queryParams = Some [(''external_id'', externalId)], headers = None \<rparr>"

definition lookupVenue :: "'n transport \<Rightarrow> string \<Rightarrow> 'n thrown + 'n json" where
  "lookupVenue req externalId =
     (case req (lookupVenue_request externalId) of
        Inr v \<Rightarrow> Inr v
      | Inl error \<Rightarrow> if instanceof_NotFoundError error then Inr JNull else Inl error)"

definition getVenueWithResources_request :: "string \<Rightarrow> 'n RequestOptions" where
  "getVenueWithResources_request venueExternalId =
     \<lparr> http_method = ''GET'', path = ''/venues/resources/'', data = None,
       queryParams = Some [(''venue_external_id'', venueExternalId)], headers = None \<rparr>"

definition getVenueWithResources :: "'n transport \<Rightarrow> string \<Rightarrow> 'n thrown + 'n json" where
  "getVenueWithResources req venueExternalId = req (getVenueWithResources_request venueExternalId)"

definition listVenues_request ::
  "'n number_ops \<Rightarrow> string option \<Rightarrow> string option \<Rightarrow> string option
     \<Rightarrow> bool option \<Rightarrow> bool option \<Rightarrow> 'n option \<Rightarrow> 'n option \<Rightarrow> 'n RequestOptions" where
  "listVenues_request N city venueType search isActive isFeatured page pageSize =
     \<lparr> http_method = ''GET'', path = ''/venues/'', data = None,
       queryParams = Some
         (string_param ''city'' city
          @ string_param ''venue_type'' venueType
          @ string_param ''search'' search
          @ bool_param ''is_active'' isActive
          @ bool_param ''is_featured'' isFeatured
          @ number_param N ''page'' page
          @ number_param N ''page_size'' pageSize),
       headers = None \<rparr>"

definition listVenues ::
  "'n number_ops \<Rightarrow> 'n transport \<Rightarrow> string option \<Rightarrow> string option \<Rightarrow> string option
     \<Rightarrow> bool option \<Rightarrow> bool option \<Rightarrow> 'n option \<Rightarrow> 'n option \<Rightarrow> 'n thrown + 'n json" where
  "listVenues N req city venueType search isActive isFeatured page pageSize =
     req (listVenues_request N city venueType search isActive isFeatured page pageSize)"

text \<open>
  \<open>getVenue\<close> puts its argument into the path as a template literal does; \<open>getVenueBySlug\<close>
  calls it with \<^verbatim>\<open>venue.id\<close>, whatever that is. \<open>None\<close> is \<^verbatim>\<open>undefined\<close>.
\<close>

definition getVenue_request :: "'n number_ops \<Rightarrow> 'n json option \<Rightarrow> 'n RequestOptions" where
  "getVenue_request N venueId =
     \<lparr> http_method = ''GET'', path = ''/venues/'' @ template_value N venueId @ ''/'',
       data = None, queryParams = None, headers = None \<rparr>"

definition getVenue :: "'n number_ops \<Rightarrow> 'n transport \<Rightarrow> 'n json option \<Rightarrow> 'n thrown + 'n json" where
  "getVenue N req venueId = req (getVenue_request N venueId)"

text \<open>
  \<^verbatim>\<open>results.find((v) => v.slug === slug)\<close> on the elements of an array: reading
  \<^verbatim>\<open>v.slug\<close> throws at a \<^verbatim>\<open>null\<close> element that is reached before a match.
\<close>

fun find_by_slug :: "string \<Rightarrow> 'n json list \<Rightarrow> js_thrown + 'n json option" where
  "find_by_slug slug [] = Inr None"
| "find_by_slug slug (v # vs) =
     (if v = JNull then Inl (TypeError_read ''null'' ''slug'')
      else if get_prop v ''slug'' = Some (JStr slug) then Inr (Some v)
      else find_by_slug slug vs)"

text \<open>\<^verbatim>\<open>response.results.find(...)\<close> as a whole.\<close>

definition results_find :: "string \<Rightarrow> 'n json \<Rightarrow> js_thrown + 'n json option" where
  "results_find slug response =
     (if response = JNull then Inl (TypeError_read ''null'' ''results'')
      else
        (case get_prop response ''results'' of
           None \<Rightarrow> Inl (TypeError_read ''undefined'' ''find'')
         | Some JNull \<Rightarrow> Inl (TypeError_read ''null'' ''find'')
         | Some (JArr vs) \<Rightarrow> find_by_slug slug vs
         | Some _ \<Rightarrow> Inl (TypeError_not_function ''response.results.find'')))"

definition getVenueBySlug_request :: "string \<Rightarrow> 'n RequestOptions" where
  "getVenueBySlug_request slug =
     \<lparr> http_method = ''GET'', path = ''/venues/'', data = None,
       queryParams = Some [(''search'', slug)], headers = None \<rparr>"

definition getVenueBySlug :: "'n number_ops \<Rightarrow> 'n transport \<Rightarrow> string \<Rightarrow> 'n thrown + 'n json" where
  "getVenueBySlug N req slug =
     (case req (getVenueBySlug_request slug) of
        Inl error \<Rightarrow> Inl error
      | Inr response \<Rightarrow>
          (case results_find slug response of
             Inl t \<Rightarrow> Inl (Raw t)
           | Inr None \<Rightarrow>
               Inl (Sdk (new_NotFoundError
                      (Some (''Venue with slug '' @ [CHR 0x27] @ slug @ [CHR 0x27] @ '' not found''))))
           | Inr (Some venue) \<Rightarrow> getVenue N req (get_prop venue ''id'')))"

subsection \<open>Availability\<close>

text \<open>
  A \<^verbatim>\<open>Date\<close> as \<open>formatDate\<close> reads it: the calendar fields its getters return in the
  caller's local time zone.
\<close>

record local_date =
  getFullYear :: int
  getMonth :: int
  getDate :: int

definition formatDate :: "'n number_ops \<Rightarrow> local_date \<Rightarrow> string" where
  "formatDate N date =
     (let year = num_lit N (getFullYear date);
          month = padStart2 (num_to_string N (num_lit N (getMonth date + 1)));
          day = padStart2 (num_to_string N (num_lit N (getDate date)))
      in num_to_string N year @ ''-'' @ month @ ''-'' @ day)"

definition getAvailabilityById_request ::
  "'n number_ops \<Rightarrow> 'n \<Rightarrow> local_date \<Rightarrow> local_date \<Rightarrow> 'n RequestOptions" where
  "getAvailabilityById_request N resourceId startDate endDate =
     \<lparr> http_method = ''GET'',
       path = ''/resources/'' @ num_to_string N resourceId @ ''/availability/'',
       data = None,
       queryParams = Some [(''start_date'', formatDate N startDate),
                           (''end_date'', formatDate N endDate)],
       headers = None \<rparr>"

definition getAvailabilityById ::
  "'n number_ops \<Rightarrow> 'n transport \<Rightarrow> 'n \<Rightarrow> local_date \<Rightarrow> local_date \<Rightarrow> 'n thrown + 'n json" where
  "getAvailabilityById N req resourceId startDate endDate =
     req (getAvailabilityById_request N resourceId startDate endDate)"

definition getAvailability_request ::
  "'n number_ops \<Rightarrow> string \<Rightarrow> local_date \<Rightarrow> local_date \<Rightarrow> 'n RequestOptions" where
  "getAvailability_request N resourceExternalId startDate endDate =
     \<lparr> http_method = ''GET'', path = ''/resources/availability/'', data = None,
       queryParams = Some [(''resource_external_id'', resourceExternalId),
                           (''start_date'', formatDate N startDate),
                           (''end_date'', formatDate N endDate)],
       headers = None \<rparr>"

definition getAvailability ::
  "'n number_ops \<Rightarrow> 'n transport \<Rightarrow> string \<Rightarrow> local_date \<Rightarrow> local_date \<Rightarrow> 'n thrown + 'n json" where
  "getAvailability N req resourceExternalId startDate endDate =
     req (getAvailability_request N resourceExternalId startDate endDate)"

subsection \<open>Bookings\<close>

text \<open>
  \<open>formatDateTimeWithTimezone\<close> rests on luxon and on \<^verbatim>\<open>Intl.DateTimeFormat\<close> with the
  platform's time zone database, none of which is part of the repository. They are a
  parameter: \<open>luxon_toISO\<close> is \<open>None\<close> when \<^verbatim>\<open>require("luxon")\<close> throws, and otherwise
  what \<^verbatim>\<open>DateTime.fromJSDate(date, { zone }).toISO({ suppressMilliseconds: true })\<close>
  does (it throws, or returns a string or \<^verbatim>\<open>null\<close>); \<open>intl_datetime_parts\<close> and
  \<open>intl_offset_parts\<close> are what \<^verbatim>\<open>formatToParts(date)\<close> returns for the two formatters
  of \<open>fallbackFormatDateTime\<close>, as pairs of \<^verbatim>\<open>type\<close> and \<^verbatim>\<open>value\<close>, or what
  constructing or applying the formatter throws (a \<^verbatim>\<open>RangeError\<close> for a zone name the
  platform does not know). \<open>'d\<close> is the type of \<^verbatim>\<open>Date\<close> values.
\<close>

record 'd time_platform =
  luxon_toISO :: "('d \<Rightarrow> string \<Rightarrow> js_thrown + string option) option"
  intl_datetime_parts :: "'d \<Rightarrow> string \<Rightarrow> js_thrown + (string \<times> string) list"
  intl_offset_parts :: "'d \<Rightarrow> string \<Rightarrow> js_thrown + (string \<times> string) list"

text \<open>
  \<^verbatim>\<open>offsetStr.match(/GMT([+-]?)(\d+)?(?::(\d+))?/)\<close>: the match starts at the first
  \<^verbatim>\<open>GMT\<close>; the result is the three groups, \<open>None\<close> for a group that took part in no
  match.
\<close>

definition is_digit :: "char \<Rightarrow> bool" where
  "is_digit c = (c \<in> set ''0123456789'')"

fun after_GMT :: "string \<Rightarrow> string option" where
  "after_GMT [] = None"
| "after_GMT (c # cs) =
     (if take 3 (c # cs) = ''GMT'' then Some (drop 3 (c # cs)) else after_GMT cs)"

definition offset_match :: "string \<Rightarrow> (string \<times> string option \<times> string option) option" where
  "offset_match s =
     (case after_GMT s of
        None \<Rightarrow> None
      | Some r \<Rightarrow>
          (let sign = (case r of c # cs \<Rightarrow> if c = CHR ''+'' \<or> c = CHR ''-'' then [c] else [] | [] \<Rightarrow> []);
               r1 = drop (length sign) r;
               hours = takeWhile is_digit r1;
               r2 = dropWhile is_digit r1;
               minutes = (case r2 of c # cs \<Rightarrow> if c = CHR '':'' then takeWhile is_digit cs else []
                          | [] \<Rightarrow> [])
           in Some (sign,
                    if hours = [] then None else Some hours,
                    if minutes = [] then None else Some minutes)))"

text \<open>\<^verbatim>\<open>parts.find((p) => p.type === type)?.value\<close>.\<close>

definition get_part :: "(string \<times> string) list \<Rightarrow> string \<Rightarrow> string option" where
  "get_part parts ty = map_option snd (find (\<lambda>p. fst p = ty) parts)"

text \<open>The offset of \<open>fallbackFormatDateTime\<close>, from the text of the \<^verbatim>\<open>timeZoneName\<close> part.\<close>

definition format_offset :: "string \<Rightarrow> string" where
  "format_offset offsetStr =
     (case offset_match offsetStr of
        None \<Rightarrow> ''+00:00''
      | Some (g1, g2, g3) \<Rightarrow>
          (let sign = (if g1 = [] then ''+'' else g1);
               hours = padStart2 (case g2 of None \<Rightarrow> ''0'' | Some h \<Rightarrow> h);
               minutes = padStart2 (case g3 of None \<Rightarrow> ''0'' | Some m \<Rightarrow> m)
           in sign @ hours @ '':'' @ minutes))"

definition fallbackFormatDateTime ::
  "'d time_platform \<Rightarrow> 'd \<Rightarrow> string \<Rightarrow> js_thrown + string" where
  "fallbackFormatDateTime P date timezone =
     (case intl_datetime_parts P date timezone of
        Inl t \<Rightarrow> Inl t
      | Inr parts \<Rightarrow>
          (let getPart = (\<lambda>ty. case get_part parts ty of None \<Rightarrow> ''00'' | Some v \<Rightarrow> v);
               year = getPart ''year'';
               month = getPart ''month'';
               day = getPart ''day'';
               hour = getPart ''hour'';
               minute = getPart ''minute'';
               second = getPart ''second''
           in case intl_offset_parts P date timezone of
                Inl t \<Rightarrow> Inl t
              | Inr offsetParts \<Rightarrow>
                  (let offsetStr = (case get_part offsetParts ''timeZoneName'' of
                                      None \<Rightarrow> ''+00:00'' | Some v \<Rightarrow> v);
                       formattedOffset = format_offset offsetStr
                   in Inr (year @ ''-'' @ month @ ''-'' @ day @ ''T'' @ hour @ '':'' @ minute
                           @ '':'' @ second @ formattedOffset))))"

definition formatDateTimeWithTimezone ::
  "'d time_platform \<Rightarrow> 'd \<Rightarrow> string \<Rightarrow> js_thrown + string" where
  "formatDateTimeWithTimezone P date timezone =
     (case luxon_toISO P of
        None \<Rightarrow> fallbackFormatDateTime P date timezone
      | Some toISO \<Rightarrow>
          (case toISO date timezone of
             Inl t \<Rightarrow> fallbackFormatDateTime P date timezone
           | Inr (Some text) \<Rightarrow> Inr text
           | Inr None \<Rightarrow>
               (case fallbackFormatDateTime P date timezone of
                  Inl t \<Rightarrow> fallbackFormatDateTime P date timezone
                | Inr s \<Rightarrow> Inr s)))"


definition createBooking_request ::
  "'n number_ops \<Rightarrow> string \<Rightarrow> string \<Rightarrow> string \<Rightarrow> string \<Rightarrow> 'n option \<Rightarrow> string option
     \<Rightarrow> 'n RequestOptions" where
  "createBooking_request N resourceExternalId userExternalId start_datetime end_datetime
       participantCount notes =
     \<lparr> http_method = ''POST'', path = ''/bookings/'',
       data = Some (JObj
         [(''resource_external_id'', JStr resourceExternalId),
          (''start_datetime'', JStr start_datetime),
          (''end_datetime'', JStr end_datetime),
          (''participant_count'',
             JNum (case participantCount of None \<Rightarrow> num_lit N 1 | Some c \<Rightarrow> c)),
          (''notes'', JStr (or_empty notes))]),
       queryParams = None,
       headers = Some [(''X-User-External-ID'', userExternalId)] \<rparr>"

definition createBooking ::
  "'n number_ops \<Rightarrow> 'd time_platform \<Rightarrow> 'n transport
     \<Rightarrow> string \<Rightarrow> string \<Rightarrow> 'd \<Rightarrow> 'd \<Rightarrow> string \<Rightarrow> 'n option \<Rightarrow> string option
     \<Rightarrow> 'n thrown + 'n json" where
  "createBooking N P req resourceExternalId userExternalId startDatetime endDatetime
       timezone participantCount notes =
     (case formatDateTimeWithTimezone P startDatetime timezone of
        Inl t \<Rightarrow> Inl (Raw t)
      | Inr start_datetime \<Rightarrow>
     (case formatDateTimeWithTimezone P endDatetime timezone of
        Inl t \<Rightarrow> Inl (Raw t)
      | Inr end_datetime \<Rightarrow>
          req (createBooking_request N resourceExternalId userExternalId
                 start_datetime end_datetime participantCount notes)))"

text \<open>The booking id of \<open>getBooking\<close> is a number or a string.\<close>

definition getBooking_request ::
  "'n number_ops \<Rightarrow> 'n json \<Rightarrow> string option \<Rightarrow> 'n RequestOptions" where
  "getBooking_request N bookingId userExternalId =
     \<lparr> http_method = ''GET'',
       path = ''/bookings/'' @ js_String N bookingId @ ''/'',
       data = None, queryParams = None,
       headers = (case userExternalId of
                    None \<Rightarrow> None
                  | Some u \<Rightarrow> if u \<noteq> [] then Some [(''X-User-External-ID'', u)] else None) \<rparr>"

definition getBooking ::
  "'n number_ops \<Rightarrow> 'n transport \<Rightarrow> 'n json \<Rightarrow> string option \<Rightarrow> 'n thrown + 'n json" where
  "getBooking N req bookingId userExternalId = req (getBooking_request N bookingId userExternalId)"

text \<open>
  The last two statements of \<open>listBookings\<close>: an array is returned as it is; otherwise
  \<^verbatim>\<open>response.results ?? []\<close>, which throws when the response is \<^verbatim>\<open>null\<close>.
\<close>

definition unwrap_bookings :: "'n json \<Rightarrow> js_thrown + 'n json" where
  "unwrap_bookings response =
     (case response of
        JArr xs \<Rightarrow> Inr (JArr xs)
      | JNull \<Rightarrow> Inl (TypeError_read ''null'' ''results'')
      | _ \<Rightarrow>
        (case get_prop response ''results'' of
           None \<Rightarrow> Inr (JArr [])
         | Some JNull \<Rightarrow> Inr (JArr [])
         | Some v \<Rightarrow> Inr v))"

definition listBookings_request :: "string option \<Rightarrow> bool option \<Rightarrow> 'n RequestOptions" where
  "listBookings_request status upcomingOnly =
     \<lparr> http_method = ''GET'', path = ''/bookings/'', data = None,
       queryParams = Some
         (string_param ''status'' status
          @ (if upcomingOnly = Some True then [(''upcoming'', ''true'')] else [])),
       headers = None \<rparr>"

definition listBookings ::
  "'n transport \<Rightarrow> string option \<Rightarrow> bool option \<Rightarrow> 'n thrown + 'n json" where
  "listBookings req status upcomingOnly =
     (case req (listBookings_request status upcomingOnly) of
        Inl error \<Rightarrow> Inl error
      | Inr response \<Rightarrow>
          (case unwrap_bookings response of
             Inl t \<Rightarrow> Inl (Raw t)
           | Inr bookings \<Rightarrow> Inr bookings))"

definition createPaymentIntent_request :: "'n number_ops \<Rightarrow> 'n \<Rightarrow> string \<Rightarrow> 'n RequestOptions" where
  "createPaymentIntent_request N bookingId userExternalId =
     \<lparr> http_method = ''POST'',
       path = ''/bookings/'' @ num_to_string N bookingId @ ''/create-payment-intent/'',
       data = None, queryParams = None,
       headers = Some [(''X-User-External-ID'', userExternalId)] \<rparr>"

definition createPaymentIntent ::
  "'n number_ops \<Rightarrow> 'n transport \<Rightarrow> 'n \<Rightarrow> string \<Rightarrow> 'n thrown + 'n json" where
  "createPaymentIntent N req bookingId userExternalId =
     req (createPaymentIntent_request N bookingId userExternalId)"

definition cancelBooking_request ::
  "'n number_ops \<Rightarrow> 'n \<Rightarrow> string \<Rightarrow> string option \<Rightarrow> string option \<Rightarrow> 'n RequestOptions" where
  "cancelBooking_request N bookingId userExternalId reason notes =
     \<lparr> http_method = ''POST'',
       path = ''/bookings/'' @ num_to_string N bookingId @ ''/cancel/'',
       data = Some (JObj
         [(''reason'', JStr (case reason of None \<Rightarrow> ''user_request'' | Some r \<Rightarrow> r)),
          (''notes'', JStr (or_empty notes))]),
       queryParams = None,
       headers = Some [(''X-User-External-ID'', userExternalId)] \<rparr>"

definition cancelBooking ::
  "'n number_ops \<Rightarrow> 'n transport \<Rightarrow> 'n \<Rightarrow> string \<Rightarrow> string option \<Rightarrow> string option
     \<Rightarrow> 'n thrown + 'n json" where
  "cancelBooking N req bookingId userExternalId reason notes =
     req (cancelBooking_request N bookingId userExternalId reason notes)"


section \<open>A number type for concrete inputs\<close>

text \<open>
  The integers, printed in decimal as JavaScript prints an integer of magnitude below
  \<open>10\<^sup>2\<^sup>1\<close>; zero is the only falsy one.
\<close>

fun show_nat :: "nat \<Rightarrow> string" where
  "show_nat n =
     (if n < 10 then [char_of (48 + n)]
      else show_nat (n div 10) @ [char_of (48 + n mod 10)])"

declare show_nat.simps [simp del]

definition show_int :: "int \<Rightarrow> string" where
  "show_int i = (if i < 0 then ''-'' @ show_nat (nat (- i)) else show_nat (nat i))"

definition int_numbers :: "int number_ops" where
  "int_numbers =
     \<lparr> num_to_string = show_int, num_to_json = show_int,
       num_truthy = (\<lambda>i. i \<noteq> 0), num_lit = (\<lambda>i. i) \<rparr>"

text \<open>A client and a request for concrete inputs.\<close>

definition example_client :: "int MatchEngineClient" where
  "example_client =
     new_MatchEngineClient int_numbers
       \<lparr> baseUrl = ''https://api.example.com/'', apiToken = ''t0ken'',
         stripePublishableKey = ''pk_test'', timeoutMs = None \<rparr>"


text \<open>
  A platform without luxon whose \<^verbatim>\<open>Intl\<close> answers as engines do for 14:30:00 on
  15 January 2025: \<^verbatim>\<open>GMT+5:30\<close> for Asia/Kolkata, \<^verbatim>\<open>GMT\<close> for UTC, and
  \<^verbatim>\<open>GMT-3\<close> otherwise.
\<close>

definition intl_example :: "unit time_platform" where
  "intl_example =
     \<lparr> luxon_toISO = None,
       intl_datetime_parts = (\<lambda>date zone. Inr
          [(''year'', ''2025''), (''literal'', ''-''), (''month'', ''01''), (''literal'', ''-''),
           (''day'', ''15''), (''literal'', '', ''), (''hour'', ''14''), (''literal'', '':''),
           (''minute'', ''30''), (''literal'', '':''), (''second'', ''00'')]),
       intl_offset_parts = (\<lambda>date zone. Inr
          [(''month'', ''1''), (''literal'', ''/''), (''day'', ''15''), (''literal'', ''/''),
           (''year'', ''2025''), (''literal'', '', ''),
           (''timeZoneName'', if zone = ''Asia/Kolkata'' then ''GMT+5:30''
                              else if zone = ''UTC'' then ''GMT'' else ''GMT-3'')]) \<rparr>"


section \<open>Notions for stating the properties\<close>




text \<open>
  A string has a form when it matches it character by character: \<^verbatim>\<open>d\<close> in the form is
  any digit, \<^verbatim>\<open>s\<close> is a sign, every other character is itself.
\<close>

fun has_form :: "string \<Rightarrow> string \<Rightarrow> bool" where
  "has_form [] [] = True"
| "has_form (p # ps) (c # cs) =
     ((if p = CHR ''d'' then is_digit c
       else if p = CHR ''s'' then c = CHR ''+'' \<or> c = CHR ''-''
       else c = p) \<and> has_form ps cs)"
| "has_form ps cs = False"

definition digits :: "nat \<Rightarrow> string \<Rightarrow> bool" where
  "digits n s = (length s = n \<and> list_all is_digit s)"

text \<open>
  The texts of a \<^verbatim>\<open>shortOffset\<close> time zone name: \<^verbatim>\<open>GMT\<close>, or \<^verbatim>\<open>GMT\<close> with a sign
  and one or two digits of hours, or that followed by a colon and two digits of minutes.
\<close>

inductive gmt_offset_text :: "string \<Rightarrow> bool" where
  zero: "gmt_offset_text ''GMT''"
| hours: "sg = CHR ''+'' \<or> sg = CHR ''-'' \<Longrightarrow> h \<noteq> [] \<Longrightarrow> length h \<le> 2 \<Longrightarrow> list_all is_digit h
    \<Longrightarrow> gmt_offset_text (''GMT'' @ sg # h)"
| hours_minutes: "sg = CHR ''+'' \<or> sg = CHR ''-'' \<Longrightarrow> h \<noteq> [] \<Longrightarrow> length h \<le> 2 \<Longrightarrow> list_all is_digit h
    \<Longrightarrow> digits 2 m \<Longrightarrow> gmt_offset_text (''GMT'' @ sg # h @ CHR '':'' # m)"


section \<open>Auxiliary facts\<close>




lemma derive_message_null: "derive_message N JNull = Inl (TypeError_read ''null'' ''error'')"
  by (simp add: derive_message_def)



lemma request_catch_Sdk: "request_catch (Sdk e) = Inl (Sdk e)"
  by (simp add: request_catch_def)






lemma endsWith_slash_iff: "endsWith_slash s \<longleftrightarrow> (\<exists>s'. s = s' @ ''/'')"
proof
  assume "endsWith_slash s"
  then have "s \<noteq> []" "last s = CHR ''/''" by (simp_all add: endsWith_slash_def)
  then have "s = butlast s @ ''/''" by (metis append_butlast_last_id)
  then show "\<exists>s'. s = s' @ ''/''" by blast
next
  assume "\<exists>s'. s = s' @ ''/''"
  then show "endsWith_slash s" by (auto simp: endsWith_slash_def)
qed

lemma instanceof_NotFoundError_iff:
  "instanceof_NotFoundError t \<longleftrightarrow> (\<exists>e. t = Sdk e \<and> error_class e = NotFoundError)"
  by (cases t) (auto simp: instanceof_NotFoundError_def)

lemma lookupUser_cases:
  "lookupUser req x =
     (case req (lookupUser_request x) of
        Inr v \<Rightarrow> Inr v
      | Inl t \<Rightarrow> if \<exists>e. t = Sdk e \<and> error_class e = NotFoundError then Inr JNull else Inl t)"
  by (simp add: lookupUser_def instanceof_NotFoundError_iff split: sum.splits)

lemma lookupResource_cases:
  "lookupResource req x =
     (case req (lookupResource_request x) of
        Inr v \<Rightarrow> Inr v
      | Inl t \<Rightarrow> if \<exists>e. t = Sdk e \<and> error_class e = NotFoundError then Inr JNull else Inl t)"
  by (simp add: lookupResource_def instanceof_NotFoundError_iff split: sum.splits)

lemma lookupVenue_cases:
  "lookupVenue req x =
     (case req (lookupVenue_request x) of
        Inr v \<Rightarrow> Inr v
      | Inl t \<Rightarrow> if \<exists>e. t = Sdk e \<and> error_class e = NotFoundError then Inr JNull else Inl t)"
  by (simp add: lookupVenue_def instanceof_NotFoundError_iff split: sum.splits)


section \<open>The message derived from an error body\<close>





section \<open>Status codes and error classes\<close>







text \<open>Two messages that differ only in the case of their letters are classified alike.\<close>

lemma classification_ignores_case:
  "toLowerCase m1 = toLowerCase m2 \<Longrightarrow>
   error_class (classify 400 m1 d) = error_class (classify 400 m2 d)"
  by (simp add: classify_def new_SlotNotAvailableError_def
      new_UserNotFoundError_def new_ValidationError_def new_MatchEngineError_def)





section \<open>The outcomes of the transport\<close>

text \<open>
  Claim C10. When the response has a 2xx status and \<^verbatim>\<open>response.json()\<close> rejects with an
  \<^verbatim>\<open>Error\<close> (a \<^verbatim>\<open>SyntaxError\<close> for a body that is not JSON), \<open>request\<close> returns no
  value: it rejects with a base \<open>MatchEngineError\<close> whose message is that of the parse
  failure, with no status code and no payload.
\<close>

theorem success_body_parse_failure:
  assumes "net (build_call N client options) = FetchResponse status (Inl (JsError nm msg))"
    and "response_ok status"
    and "nm \<noteq> ''AbortError''"
  shows "request N client net options
     = Inl (Sdk \<lparr> error_class = MatchEngineError, message = msg, statusCode = None,
                  responseData = None, fieldErrors = None \<rparr>)"
  using assms by (simp add: request_def request_catch_def new_MatchEngineError_def)

theorem success_body_parse_failure_witness:
  "request int_numbers example_client
      (\<lambda>call. FetchResponse 204 (Inl (JsError ''SyntaxError'' ''Unexpected end of JSON input'')))
      (cancelBooking_request int_numbers 7 ''u1'' None None)
     = Inl (Sdk \<lparr> error_class = MatchEngineError, message = ''Unexpected end of JSON input'',
                  statusCode = None, responseData = None, fieldErrors = None \<rparr>)"
proof -
  have ok: "response_ok 204" by (simp add: response_ok_def)
  have nm: "''SyntaxError'' \<noteq> ''AbortError''" by simp
  show ?thesis
    by (rule success_body_parse_failure [OF _ ok nm]) simp
qed

text \<open>
  When \<^verbatim>\<open>fetch\<close> rejects with an \<^verbatim>\<open>AbortError\<close>, as it does once the timer of
  \<open>request\<close> has fired the abort signal, \<open>request\<close> rejects with the base error
  \<^verbatim>\<open>Request timeout\<close>, status code 408, no payload.
\<close>

lemma request_abort:
  assumes "net (build_call N client options) = FetchRejected (JsError ''AbortError'' msg)"
  shows "request N client net options
     = Inl (Sdk \<lparr> error_class = MatchEngineError, message = ''Request timeout'',
                  statusCode = Some 408, responseData = None, fieldErrors = None \<rparr>)"
  using assms by (simp add: request_def request_catch_def new_MatchEngineError_def)


section \<open>Which operations absorb an error\<close>

text \<open>
  Claim C6. A user, resource or venue lookup whose request fails with a \<open>NotFoundError\<close>
  returns \<^verbatim>\<open>null\<close>; whatever else the request throws, the lookup throws unchanged. In
  every other operation of the client, what a request throws is what the operation
  throws: the three lookups are the only places where an error of the transport is
  absorbed.
\<close>

theorem lookups_absorb_only_NotFound:
  fixes req :: "'n transport"
  shows
   "(req (lookupUser_request x) = Inl (Sdk e) \<and> error_class e = NotFoundError
       \<longrightarrow> lookupUser req x = Inr JNull)
  \<and> (req (lookupResource_request x) = Inl (Sdk e) \<and> error_class e = NotFoundError
       \<longrightarrow> lookupResource req x = Inr JNull)
  \<and> (req (lookupVenue_request x) = Inl (Sdk e) \<and> error_class e = NotFoundError
       \<longrightarrow> lookupVenue req x = Inr JNull)
  \<and> (req (lookupUser_request x) = Inl t \<and> (\<forall>e'. t = Sdk e' \<longrightarrow> error_class e' \<noteq> NotFoundError)
       \<longrightarrow> lookupUser req x = Inl t)
  \<and> (req (lookupResource_request x) = Inl t \<and> (\<forall>e'. t = Sdk e' \<longrightarrow> error_class e' \<noteq> NotFoundError)
       \<longrightarrow> lookupResource req x = Inl t)
  \<and> (req (lookupVenue_request x) = Inl t \<and> (\<forall>e'. t = Sdk e' \<longrightarrow> error_class e' \<noteq> NotFoundError)
       \<longrightarrow> lookupVenue req x = Inl t)
  \<and> (req (registerUser_request a1 a2 a3 a4) = Inl t \<longrightarrow> registerUser req a1 a2 a3 a4 = Inl t)
  \<and> (req (registerResource_request b1 b2 b3) = Inl t \<longrightarrow> registerResource req b1 b2 b3 = Inl t)
  \<and> (req (listResources_request N c1 c2 c3 c4) = Inl t \<longrightarrow> listResources N req c1 c2 c3 c4 = Inl t)
  \<and> (req (registerVenue_request d1 d2 d3) = Inl t \<longrightarrow> registerVenue req d1 d2 d3 = Inl t)
  \<and> (req (getVenueWithResources_request x) = Inl t \<longrightarrow> getVenueWithResources req x = Inl t)
  \<and> (req (listVenues_request N f1 f2 f3 f4 f5 f6 f7) = Inl t
       \<longrightarrow> listVenues N req f1 f2 f3 f4 f5 f6 f7 = Inl t)
  \<and> (req (getVenue_request N g1) = Inl t \<longrightarrow> getVenue N req g1 = Inl t)
  \<and> (req (getVenueBySlug_request x) = Inl t \<longrightarrow> getVenueBySlug N req x = Inl t)
  \<and> (req (getVenueBySlug_request x) = Inr response \<and> results_find x response = Inr (Some venue)
       \<and> req (getVenue_request N (get_prop venue ''id'')) = Inl t
       \<longrightarrow> getVenueBySlug N req x = Inl t)
  \<and> (req (getAvailabilityById_request N h1 h2 h3) = Inl t
       \<longrightarrow> getAvailabilityById N req h1 h2 h3 = Inl t)
  \<and> (req (getAvailability_request N x h2 h3) = Inl t \<longrightarrow> getAvailability N req x h2 h3 = Inl t)
  \<and> (formatDateTimeWithTimezone P k3 k5 = Inr start
       \<and> formatDateTimeWithTimezone P k4 k5 = Inr finish
       \<and> req (createBooking_request N k1 k2 start finish k6 k7) = Inl t
       \<longrightarrow> createBooking N P req k1 k2 k3 k4 k5 k6 k7 = Inl t)
  \<and> (req (getBooking_request N l1 l2) = Inl t \<longrightarrow> getBooking N req l1 l2 = Inl t)
  \<and> (req (listBookings_request m1 m2) = Inl t \<longrightarrow> listBookings req m1 m2 = Inl t)
  \<and> (req (createPaymentIntent_request N h1 x) = Inl t \<longrightarrow> createPaymentIntent N req h1 x = Inl t)
  \<and> (req (cancelBooking_request N h1 x q3 q4) = Inl t \<longrightarrow> cancelBooking N req h1 x q3 q4 = Inl t)"
proof -
  have lu: "(req (lookupUser_request x) = Inl (Sdk e) \<and> error_class e = NotFoundError
       \<longrightarrow> lookupUser req x = Inr JNull)
     \<and> (req (lookupUser_request x) = Inl t \<and> (\<forall>e'. t = Sdk e' \<longrightarrow> error_class e' \<noteq> NotFoundError)
       \<longrightarrow> lookupUser req x = Inl t)"
    by (auto simp: lookupUser_cases)
  have lr: "(req (lookupResource_request x) = Inl (Sdk e) \<and> error_class e = NotFoundError
       \<longrightarrow> lookupResource req x = Inr JNull)
     \<and> (req (lookupResource_request x) = Inl t \<and> (\<forall>e'. t = Sdk e' \<longrightarrow> error_class e' \<noteq> NotFoundError)
       \<longrightarrow> lookupResource req x = Inl t)"
    by (auto simp: lookupResource_cases)
  have lv: "(req (lookupVenue_request x) = Inl (Sdk e) \<and> error_class e = NotFoundError
       \<longrightarrow> lookupVenue req x = Inr JNull)
     \<and> (req (lookupVenue_request x) = Inl t \<and> (\<forall>e'. t = Sdk e' \<longrightarrow> error_class e' \<noteq> NotFoundError)
       \<longrightarrow> lookupVenue req x = Inl t)"
    by (auto simp: lookupVenue_cases)
  have p1: "req (registerUser_request a1 a2 a3 a4) = Inl t \<longrightarrow> registerUser req a1 a2 a3 a4 = Inl t"
    by (simp add: registerUser_def)
  have p2: "req (registerResource_request b1 b2 b3) = Inl t \<longrightarrow> registerResource req b1 b2 b3 = Inl t"
    by (simp add: registerResource_def)
  have p3: "req (listResources_request N c1 c2 c3 c4) = Inl t \<longrightarrow> listResources N req c1 c2 c3 c4 = Inl t"
    by (simp add: listResources_def)
  have p4: "req (registerVenue_request d1 d2 d3) = Inl t \<longrightarrow> registerVenue req d1 d2 d3 = Inl t"
    by (simp add: registerVenue_def)
  have p5: "req (getVenueWithResources_request x) = Inl t \<longrightarrow> getVenueWithResources req x = Inl t"
    by (simp add: getVenueWithResources_def)
  have p6: "req (listVenues_request N f1 f2 f3 f4 f5 f6 f7) = Inl t
       \<longrightarrow> listVenues N req f1 f2 f3 f4 f5 f6 f7 = Inl t"
    by (simp add: listVenues_def)
  have p7: "req (getVenue_request N g1) = Inl t \<longrightarrow> getVenue N req g1 = Inl t"
    by (simp add: getVenue_def)
  have p8: "req (getVenueBySlug_request x) = Inl t \<longrightarrow> getVenueBySlug N req x = Inl t"
    by (simp add: getVenueBySlug_def)
  have p9: "req (getVenueBySlug_request x) = Inr response \<and> results_find x response = Inr (Some venue)
       \<and> req (getVenue_request N (get_prop venue ''id'')) = Inl t
       \<longrightarrow> getVenueBySlug N req x = Inl t"
    by (simp add: getVenueBySlug_def getVenue_def)
  have p10: "req (getAvailabilityById_request N h1 h2 h3) = Inl t
       \<longrightarrow> getAvailabilityById N req h1 h2 h3 = Inl t"
    by (simp add: getAvailabilityById_def)
  have p11: "req (getAvailability_request N x h2 h3) = Inl t \<longrightarrow> getAvailability N req x h2 h3 = Inl t"
    by (simp add: getAvailability_def)
  have p12: "formatDateTimeWithTimezone P k3 k5 = Inr start
       \<and> formatDateTimeWithTimezone P k4 k5 = Inr finish
       \<and> req (createBooking_request N k1 k2 start finish k6 k7) = Inl t
       \<longrightarrow> createBooking N P req k1 k2 k3 k4 k5 k6 k7 = Inl t"
    by (simp add: createBooking_def)
  have p13: "req (getBooking_request N l1 l2) = Inl t \<longrightarrow> getBooking N req l1 l2 = Inl t"
    by (simp add: getBooking_def)
  have p14: "req (listBookings_request m1 m2) = Inl t \<longrightarrow> listBookings req m1 m2 = Inl t"
    by (simp add: listBookings_def)
  have p15: "req (createPaymentIntent_request N h1 x) = Inl t \<longrightarrow> createPaymentIntent N req h1 x = Inl t"
    by (simp add: createPaymentIntent_def)
  have p16: "req (cancelBooking_request N h1 x q3 q4) = Inl t \<longrightarrow> cancelBooking N req h1 x q3 q4 = Inl t"
    by (simp add: cancelBooking_def)
  show ?thesis
    by (intro conjI; (rule lu [THEN conjunct1] lu [THEN conjunct2] lr [THEN conjunct1]
        lr [THEN conjunct2] lv [THEN conjunct1] lv [THEN conjunct2]
        p1 p2 p3 p4 p5 p6 p7 p8 p9 p10 p11 p12 p13 p14 p15 p16))
qed

theorem lookups_absorb_only_NotFound_witness:
  "lookupUser
      (request int_numbers example_client
         (\<lambda>call. FetchResponse 404 (Inr (JObj [(''detail'', JStr ''Not found.'')]))))
      ''u1''
     = Inr JNull
   \<and> lookupUser
      (request int_numbers example_client
         (\<lambda>call. FetchResponse 401 (Inr (JObj [(''detail'', JStr ''Invalid token.'')]))))
      ''u1''
     = Inl (Sdk \<lparr> error_class = AuthenticationError, message = ''Invalid token.'',
                  statusCode = Some 401, responseData = None, fieldErrors = None \<rparr>)
   \<and> getVenueWithResources
      (request int_numbers example_client
         (\<lambda>call. FetchResponse 404 (Inr (JObj [(''detail'', JStr ''Not found.'')]))))
      ''v1''
     = Inl (Sdk \<lparr> error_class = NotFoundError, message = ''Not found.'',
                  statusCode = Some 404, responseData = None, fieldErrors = None \<rparr>)"
proof -
  let ?e404 = "\<lparr> error_class = NotFoundError, message = ''Not found.'',
                 statusCode = Some 404, responseData = None, fieldErrors = None \<rparr> :: int sdk_error"
  let ?e401 = "\<lparr> error_class = AuthenticationError, message = ''Invalid token.'',
                 statusCode = Some 401, responseData = None, fieldErrors = None \<rparr> :: int sdk_error"
  let ?r404 = "request int_numbers example_client
         (\<lambda>call. FetchResponse 404 (Inr (JObj [(''detail'', JStr ''Not found.'')])))"
  let ?r401 = "request int_numbers example_client
         (\<lambda>call. FetchResponse 401 (Inr (JObj [(''detail'', JStr ''Invalid token.'')])))"
  have a: "?r404 (lookupUser_request ''u1'') = Inl (Sdk ?e404)"
    by code_simp
  have b: "?r401 (lookupUser_request ''u1'') = Inl (Sdk ?e401)"
    by code_simp
  have c: "?r404 (getVenueWithResources_request ''v1'') = Inl (Sdk ?e404)"
    by code_simp
  have 1: "lookupUser ?r404 ''u1'' = Inr JNull"
    using lookups_absorb_only_NotFound
      [where req = ?r404 and x = "''u1''" and e = ?e404, THEN conjunct1] a
    by simp
  have 2: "lookupUser ?r401 ''u1'' = Inl (Sdk ?e401)"
    using lookups_absorb_only_NotFound
      [where req = ?r401 and x = "''u1''" and t = "Sdk ?e401",
        THEN conjunct2, THEN conjunct2, THEN conjunct2, THEN conjunct1] b
    by simp
  have 3: "getVenueWithResources ?r404 ''v1'' = Inl (Sdk ?e404)"
    using lookups_absorb_only_NotFound
      [where req = ?r404 and x = "''v1''" and t = "Sdk ?e404",
        THEN conjunct2, THEN conjunct2, THEN conjunct2, THEN conjunct2, THEN conjunct2,
        THEN conjunct2, THEN conjunct2, THEN conjunct2, THEN conjunct2, THEN conjunct2,
        THEN conjunct1] c
    by simp
  show ?thesis using 1 2 3 by simp
qed


section \<open>The list of bookings\<close>

text \<open>
  Claim C8. Whatever \<open>listBookings\<close> receives: a response that is a list is returned
  unchanged; a paginated envelope is reduced to its \<^verbatim>\<open>results\<close> list; an envelope
  without a \<^verbatim>\<open>results\<close> field gives the empty list.
\<close>

theorem listBookings_normalization:
  fixes req :: "'n transport"
  assumes "req (listBookings_request status upcomingOnly) = Inr response"
  shows "(response = JArr xs \<longrightarrow> listBookings req status upcomingOnly = Inr (JArr xs))
    \<and> (response = JObj kvs \<and> map_of kvs ''results'' = Some (JArr rs)
          \<longrightarrow> listBookings req status upcomingOnly = Inr (JArr rs))
    \<and> (response = JObj kvs \<and> map_of kvs ''results'' = None
          \<longrightarrow> listBookings req status upcomingOnly = Inr (JArr []))"
  using assms by (simp add: listBookings_def unwrap_bookings_def get_prop_def)

theorem listBookings_normalization_witness:
  "listBookings (\<lambda>options. Inr (JArr [JObj [(''id'', JNum 1)]])) None None
     = Inr (JArr [JObj [(''id'', JNum (1::int))]])
   \<and> listBookings
        (\<lambda>options. Inr (JObj [(''count'', JNum 1), (''next'', JNull), (''previous'', JNull),
                              (''results'', JArr [JObj [(''id'', JNum 1)]])])) None None
     = Inr (JArr [JObj [(''id'', JNum (1::int))]])
   \<and> listBookings
        (\<lambda>options. Inr (JObj [(''count'', JNum 0), (''next'', JNull), (''previous'', JNull)]))
        None None
     = Inr (JArr ([] :: int json list))"
proof -
  let ?b = "JArr [JObj [(''id'', JNum (1::int))]]"
  let ?kv1 = "[(''count'', JNum 1), (''next'', JNull), (''previous'', JNull), (''results'', ?b)]"
  let ?kv2 = "[(''count'', JNum (0::int)), (''next'', JNull), (''previous'', JNull)]"
  have 1: "listBookings (\<lambda>options. Inr ?b) None None = Inr ?b"
    using listBookings_normalization [of "\<lambda>options. Inr ?b" None None ?b "[JObj [(''id'', JNum 1)]]"]
    by simp
  have 2: "listBookings (\<lambda>options. Inr (JObj ?kv1)) None None = Inr ?b"
    using listBookings_normalization [of "\<lambda>options. Inr (JObj ?kv1)" None None "JObj ?kv1" _ ?kv1
        "[JObj [(''id'', JNum 1)]]"]
    by simp
  have 3: "listBookings (\<lambda>options. Inr (JObj ?kv2)) None None = Inr (JArr [])"
    using listBookings_normalization [of "\<lambda>options. Inr (JObj ?kv2)" None None "JObj ?kv2" _ ?kv2]
    by simp
  show ?thesis using 1 2 3 by simp
qed


section \<open>The configuration\<close>

text \<open>
  Claim C9, as the code has it. \<open>createConfig\<close> strips one trailing slash from the base
  address, if there is one, and leaves any other address as it is, so that the stored
  address ends with a slash exactly when the given one ended with two; an absent timeout
  becomes 30000; the token and the publishable key pass through unchanged, as does a
  timeout that is given.
\<close>

theorem createConfig_normalization:
  "(baseUrl c = s @ ''/'' \<longrightarrow> r_baseUrl (createConfig N c) = s)
   \<and> (\<not> endsWith_slash (baseUrl c) \<longrightarrow> r_baseUrl (createConfig N c) = baseUrl c)
   \<and> (endsWith_slash (r_baseUrl (createConfig N c)) \<longleftrightarrow> (\<exists>s'. baseUrl c = s' @ ''//''))
   \<and> (timeoutMs c = None \<longrightarrow> r_timeoutMs (createConfig N c) = num_lit N 30000)
   \<and> (timeoutMs c = Some t \<longrightarrow> r_timeoutMs (createConfig N c) = t)
   \<and> r_apiToken (createConfig N c) = apiToken c
   \<and> r_stripePublishableKey (createConfig N c) = stripePublishableKey c"
proof -
  have 1: "baseUrl c = s @ ''/'' \<longrightarrow> r_baseUrl (createConfig N c) = s"
    by (simp add: createConfig_def endsWith_slash_def)
  have 2: "\<not> endsWith_slash (baseUrl c) \<longrightarrow> r_baseUrl (createConfig N c) = baseUrl c"
    by (simp add: createConfig_def)
  have 3: "endsWith_slash (r_baseUrl (createConfig N c)) \<longleftrightarrow> (\<exists>s'. baseUrl c = s' @ ''//'')"
  proof (cases "endsWith_slash (baseUrl c)")
    case True
    then obtain u where u: "baseUrl c = u @ ''/''" using endsWith_slash_iff by blast
    then have r: "r_baseUrl (createConfig N c) = u"
      by (simp add: createConfig_def endsWith_slash_def)
    have "endsWith_slash u \<longleftrightarrow> (\<exists>s'. u @ ''/'' = s' @ ''//'')"
      unfolding endsWith_slash_iff by auto
    then show ?thesis using r u by simp
  next
    case False
    then have r: "r_baseUrl (createConfig N c) = baseUrl c" by (simp add: createConfig_def)
    have "\<not> (\<exists>s'. baseUrl c = s' @ ''//'')"
    proof
      assume "\<exists>s'. baseUrl c = s' @ ''//''"
      then obtain s' where "baseUrl c = (s' @ ''/'') @ ''/''" by auto
      then have "endsWith_slash (baseUrl c)" unfolding endsWith_slash_iff by blast
      then show False using False by simp
    qed
    then show ?thesis using r False by simp
  qed
  have 4: "timeoutMs c = None \<longrightarrow> r_timeoutMs (createConfig N c) = num_lit N 30000"
    by (simp add: createConfig_def Let_def)
  have 5: "timeoutMs c = Some t \<longrightarrow> r_timeoutMs (createConfig N c) = t"
    by (simp add: createConfig_def Let_def)
  have 6: "r_apiToken (createConfig N c) = apiToken c
      \<and> r_stripePublishableKey (createConfig N c) = stripePublishableKey c"
    by (simp add: createConfig_def Let_def)
  show ?thesis using 1 2 3 4 5 6 by blast
qed

theorem createConfig_normalization_witness:
  "createConfig int_numbers
      \<lparr> baseUrl = ''https://api.example.com/'', apiToken = ''t0ken'',
        stripePublishableKey = ''pk_test'', timeoutMs = None \<rparr>
    = \<lparr> r_baseUrl = ''https://api.example.com'', r_apiToken = ''t0ken'',
        r_stripePublishableKey = ''pk_test'', r_timeoutMs = 30000 \<rparr>"
proof -
  let ?c = "\<lparr> baseUrl = ''https://api.example.com/'', apiToken = ''t0ken'',
        stripePublishableKey = ''pk_test'', timeoutMs = None \<rparr> :: int MatchEngineConfig"
  have "r_baseUrl (createConfig int_numbers ?c) = ''https://api.example.com''
     \<and> r_timeoutMs (createConfig int_numbers ?c) = 30000
     \<and> r_apiToken (createConfig int_numbers ?c) = ''t0ken''
     \<and> r_stripePublishableKey (createConfig int_numbers ?c) = ''pk_test''"
    using createConfig_normalization [of ?c "''https://api.example.com''" int_numbers]
    by (simp add: int_numbers_def)
  then show ?thesis by (cases "createConfig int_numbers ?c") simp
qed

text \<open>A base address that ends with two slashes keeps one.\<close>

theorem double_slash_counterexample:
  "r_baseUrl (createConfig int_numbers
      \<lparr> baseUrl = ''https://api.example.com//'', apiToken = ''t0ken'',
        stripePublishableKey = ''pk_test'', timeoutMs = None \<rparr>)
     = ''https://api.example.com/''
   \<and> endsWith_slash (r_baseUrl (createConfig int_numbers
      \<lparr> baseUrl = ''https://api.example.com//'', apiToken = ''t0ken'',
        stripePublishableKey = ''pk_test'', timeoutMs = None \<rparr>))"
  by (simp add: createConfig_def endsWith_slash_def)


section \<open>Date and time strings\<close>

text \<open>
  The primary path returns the text of luxon as it is; without luxon, or when luxon throws,
  the result is that of the fallback.
\<close>

lemma formatDateTimeWithTimezone_luxon:
  "luxon_toISO P = Some toISO \<Longrightarrow> toISO date zone = Inr (Some text) \<Longrightarrow>
   formatDateTimeWithTimezone P date zone = Inr text"
  by (simp add: formatDateTimeWithTimezone_def)

lemma formatDateTimeWithTimezone_fallback:
  "luxon_toISO P = None \<Longrightarrow>
   formatDateTimeWithTimezone P date zone = fallbackFormatDateTime P date zone"
  by (simp add: formatDateTimeWithTimezone_def)

text \<open>The offset that the fallback writes for each text of the time zone name.\<close>

lemma after_GMT_prefix: "after_GMT (''GMT'' @ r) = Some r"
  by simp

lemma not_digit_colon: "\<not> is_digit CHR '':''"
  by (simp add: is_digit_def)

lemma not_digit_sign: "\<not> is_digit CHR ''+''" "\<not> is_digit CHR ''-''"
  by (simp_all add: is_digit_def)

lemma takeWhile_digits_end: "list_all is_digit h \<Longrightarrow> takeWhile is_digit h = h"
  by (simp add: list_all_iff)

lemma dropWhile_digits_end: "list_all is_digit h \<Longrightarrow> dropWhile is_digit h = []"
  by (simp add: list_all_iff)

lemma takeWhile_digits_colon:
  "list_all is_digit h \<Longrightarrow> takeWhile is_digit (h @ CHR '':'' # m) = h"
  by (simp add: list_all_iff takeWhile_tail not_digit_colon)

lemma dropWhile_digits_colon:
  "list_all is_digit h \<Longrightarrow> dropWhile is_digit (h @ CHR '':'' # m) = CHR '':'' # m"
  by (simp add: list_all_iff dropWhile_append3 not_digit_colon)

lemma format_offset_GMT: "format_offset ''GMT'' = ''+00:00''"
  by (simp add: format_offset_def offset_match_def padStart2_def)

lemma offset_match_hours:
  assumes "sg = CHR ''+'' \<or> sg = CHR ''-''" and "h \<noteq> []" and "list_all is_digit h"
  shows "offset_match (''GMT'' @ sg # h) = Some ([sg], Some h, None)"
proof -
  have a: "after_GMT (''GMT'' @ sg # h) = Some (sg # h)" by (rule after_GMT_prefix)
  show ?thesis
    unfolding offset_match_def a
    using assms by (auto simp: Let_def takeWhile_digits_end dropWhile_digits_end)
qed

lemma offset_match_hours_minutes:
  assumes "sg = CHR ''+'' \<or> sg = CHR ''-''" and "h \<noteq> []" and "list_all is_digit h"
    and "m \<noteq> []" and "list_all is_digit m"
  shows "offset_match (''GMT'' @ sg # h @ CHR '':'' # m) = Some ([sg], Some h, Some m)"
proof -
  have a: "after_GMT (''GMT'' @ sg # h @ CHR '':'' # m) = Some (sg # h @ CHR '':'' # m)"
    by (rule after_GMT_prefix)
  show ?thesis
    unfolding offset_match_def a
    using assms
    by (auto simp: Let_def takeWhile_digits_end takeWhile_digits_colon dropWhile_digits_colon)
qed

lemma format_offset_hours:
  assumes "sg = CHR ''+'' \<or> sg = CHR ''-''" and "h \<noteq> []" and "list_all is_digit h"
  shows "format_offset (''GMT'' @ sg # h) = sg # padStart2 h @ '':00''"
  unfolding format_offset_def offset_match_hours [OF assms]
  by (simp add: padStart2_def)

lemma format_offset_hours_minutes:
  assumes "sg = CHR ''+'' \<or> sg = CHR ''-''" and "h \<noteq> []" and "list_all is_digit h"
    and "m \<noteq> []" and "list_all is_digit m"
  shows "format_offset (''GMT'' @ sg # h @ CHR '':'' # m) = sg # padStart2 h @ '':'' @ padStart2 m"
  unfolding format_offset_def offset_match_hours_minutes [OF assms]
  by simp

lemma padStart2_digits:
  assumes "list_all is_digit h" and "h \<noteq> []" and "length h \<le> 2"
  shows "digits 2 (padStart2 h)"
proof -
  have "0 < length h" using assms(2) by simp
  then consider "length h = 1" | "length h = 2" using assms(3) by arith
  then show ?thesis
  proof cases
    case 1
    then show ?thesis
      using assms(1) by (simp add: digits_def padStart2_def is_digit_def)
  next
    case 2
    then show ?thesis
      using assms(1) by (simp add: digits_def padStart2_def)
  qed
qed

lemma digits_2D: "digits 2 s \<Longrightarrow> \<exists>a b. s = [a, b] \<and> is_digit a \<and> is_digit b"
  unfolding digits_def
  by (cases s; cases "tl s") auto

lemma digits_4D:
  "digits 4 s \<Longrightarrow> \<exists>a b c e. s = [a, b, c, e] \<and> is_digit a \<and> is_digit b \<and> is_digit c \<and> is_digit e"
  unfolding digits_def
  by (cases s; cases "tl s"; cases "tl (tl s)"; cases "tl (tl (tl s))") auto

lemma offset_formI:
  "format_offset off = [sg, a, b, CHR '':'', c, e] \<Longrightarrow> sg = CHR ''+'' \<or> sg = CHR ''-'' \<Longrightarrow>
   is_digit a \<Longrightarrow> is_digit b \<Longrightarrow> is_digit c \<Longrightarrow> is_digit e \<Longrightarrow>
   \<exists>sg a b c e. format_offset off = [sg, a, b, CHR '':'', c, e]
           \<and> (sg = CHR ''+'' \<or> sg = CHR ''-'')
           \<and> is_digit a \<and> is_digit b \<and> is_digit c \<and> is_digit e"
  by blast

lemma is_digit_0: "is_digit CHR ''0''"
  by (simp add: is_digit_def)

lemma format_offset_form:
  assumes "gmt_offset_text off"
  shows "\<exists>sg a b c e. format_offset off = [sg, a, b, CHR '':'', c, e]
           \<and> (sg = CHR ''+'' \<or> sg = CHR ''-'')
           \<and> is_digit a \<and> is_digit b \<and> is_digit c \<and> is_digit e"
  using assms
proof cases
  case zero
  have "format_offset off = [CHR ''+'', CHR ''0'', CHR ''0'', CHR '':'', CHR ''0'', CHR ''0'']"
    unfolding zero format_offset_GMT by simp
  then show ?thesis
    by (rule offset_formI) (simp_all add: is_digit_0)
next
  case (hours sg h)
  obtain a b where ab: "padStart2 h = [a, b]" "is_digit a" "is_digit b"
    using digits_2D [OF padStart2_digits [OF hours(5) hours(3) hours(4)]] by fast
  have "format_offset off = sg # padStart2 h @ '':00''"
    unfolding hours(1) using hours(2,3,5) by (rule format_offset_hours)
  then have "format_offset off = [sg, a, b, CHR '':'', CHR ''0'', CHR ''0'']"
    unfolding ab(1) by simp
  then show ?thesis
    using hours(2) ab(2,3) is_digit_0 is_digit_0 by (rule offset_formI)
next
  case (hours_minutes sg h m)
  obtain a b where ab: "padStart2 h = [a, b]" "is_digit a" "is_digit b"
    using digits_2D [OF padStart2_digits [OF hours_minutes(5) hours_minutes(3) hours_minutes(4)]]
    by fast
  obtain c e where ce: "m = [c, e]" "is_digit c" "is_digit e"
    using digits_2D [OF hours_minutes(6)] by fast
  have m: "m \<noteq> []" "list_all is_digit m"
    unfolding ce(1) using ce(2,3) by simp_all
  have "format_offset off = sg # padStart2 h @ '':'' @ padStart2 m"
    unfolding hours_minutes(1) using hours_minutes(2,3,5) m by (rule format_offset_hours_minutes)
  moreover have "padStart2 [c, e] = [c, e]"
    by (simp add: padStart2_def)
  ultimately have "format_offset off = [sg, a, b, CHR '':'', c, e]"
    by (simp add: ab(1) ce(1))
  then show ?thesis
    using hours_minutes(2) ab(2,3) ce(2,3) by (rule offset_formI)
qed

text \<open>
  When \<^verbatim>\<open>Intl\<close> gives a year of four digits, the other fields with two digits and a
  time zone name of one of the three texts, the fallback returns a string of the form
  \<^verbatim>\<open>YYYY-MM-DDTHH:mm:ss\<close> followed by a sign and \<^verbatim>\<open>HH:MM\<close>.
\<close>

lemma fallback_form:
  assumes parts: "intl_datetime_parts P date zone = Inr parts"
    and y: "get_part parts ''year'' = Some y" "digits 4 y"
    and mo: "get_part parts ''month'' = Some mo" "digits 2 mo"
    and dy: "get_part parts ''day'' = Some dy" "digits 2 dy"
    and hr: "get_part parts ''hour'' = Some hr" "digits 2 hr"
    and mi: "get_part parts ''minute'' = Some mi" "digits 2 mi"
    and se: "get_part parts ''second'' = Some se" "digits 2 se"
    and oparts: "intl_offset_parts P date zone = Inr oparts"
    and off: "get_part oparts ''timeZoneName'' = Some off" "gmt_offset_text off"
  shows "\<exists>s. fallbackFormatDateTime P date zone = Inr s
           \<and> has_form ''dddd-dd-ddTdd:dd:ddsdd:dd'' s"
proof -
  obtain y1 y2 y3 y4 where ys: "y = [y1, y2, y3, y4]"
      "is_digit y1" "is_digit y2" "is_digit y3" "is_digit y4"
    using digits_4D [OF y(2)] by fast
  obtain mo1 mo2 where mos: "mo = [mo1, mo2]" "is_digit mo1" "is_digit mo2"
    using digits_2D [OF mo(2)] by fast
  obtain dy1 dy2 where dys: "dy = [dy1, dy2]" "is_digit dy1" "is_digit dy2"
    using digits_2D [OF dy(2)] by fast
  obtain hr1 hr2 where hrs: "hr = [hr1, hr2]" "is_digit hr1" "is_digit hr2"
    using digits_2D [OF hr(2)] by fast
  obtain mi1 mi2 where mis: "mi = [mi1, mi2]" "is_digit mi1" "is_digit mi2"
    using digits_2D [OF mi(2)] by fast
  obtain se1 se2 where ses: "se = [se1, se2]" "is_digit se1" "is_digit se2"
    using digits_2D [OF se(2)] by fast
  obtain sg a b c e where fo: "format_offset off = [sg, a, b, CHR '':'', c, e]"
      "sg = CHR ''+'' \<or> sg = CHR ''-''" "is_digit a" "is_digit b" "is_digit c" "is_digit e"
    using format_offset_form [OF off(2)] by fast
  have r: "fallbackFormatDateTime P date zone
      = Inr (y @ ''-'' @ mo @ ''-'' @ dy @ ''T'' @ hr @ '':'' @ mi @ '':'' @ se @ format_offset off)"
    by (simp add: fallbackFormatDateTime_def parts oparts y(1) mo(1) dy(1) hr(1) mi(1) se(1) off(1))
  have "has_form ''dddd-dd-ddTdd:dd:ddsdd:dd''
          (y @ ''-'' @ mo @ ''-'' @ dy @ ''T'' @ hr @ '':'' @ mi @ '':'' @ se @ format_offset off)"
    unfolding ys(1) mos(1) dys(1) hrs(1) mis(1) ses(1) fo(1)
    using ys(2-5) mos(2,3) dys(2,3) hrs(2,3) mis(2,3) ses(2,3) fo(2-6)
    by simp
  then show ?thesis using r by simp
qed

text \<open>
  What the fallback assembles from the parts of the example platform: an offset with
  minutes, the zero offset (written \<^verbatim>\<open>+00:00\<close>), and a negative whole-hour offset.
\<close>

lemma fallback_offset_examples:
  "formatDateTimeWithTimezone intl_example () ''Asia/Kolkata'' = Inr ''2025-01-15T14:30:00+05:30''
   \<and> formatDateTimeWithTimezone intl_example () ''UTC'' = Inr ''2025-01-15T14:30:00+00:00''
   \<and> formatDateTimeWithTimezone intl_example () ''America/Sao_Paulo'' = Inr ''2025-01-15T14:30:00-03:00''"
  by code_simp

end
